theory Spec2Isabelle
  imports Main "HOL-Library.Word"
begin

section \<open>The BART API client of \<^verbatim>\<open>api/api.go\<close>\<close>

text \<open>
  Go strings are byte sequences, and so is \<^typ>\<open>string\<close> (a list of 8-bit
  characters). A \<^verbatim>\<open>[]byte\<close> is a list of 8-bit words; the nil slice is \<open>None\<close>.
  An \<^verbatim>\<open>error\<close> value is opaque to this package: it is only compared with nil
  and handed on, so it is a value carrying its message, and nil is \<open>None\<close>.
\<close>

type_synonym byte = "8 word"

datatype error = Error string

subsection \<open>Constants and the client\<close>

definition URL :: string where
  "URL = ''http://api.bart.gov/api/bsa.aspx''"

record Client =
  key :: string
  baseURL :: string

text \<open>
  The methods have a pointer receiver, so each is a function of the client's state that
  returns its result together with the state it leaves behind.
\<close>

definition New :: "string \<Rightarrow> Client" where
  "New k = \<lparr>key = k, baseURL = URL\<rparr>"

definition SetBaseURL :: "string \<Rightarrow> Client \<Rightarrow> Client" where
  "SetBaseURL u c = c\<lparr>baseURL := u\<rparr>"

definition BaseURL :: "Client \<Rightarrow> string \<times> Client" where
  "BaseURL c = (baseURL c, c)"

definition Key :: "Client \<Rightarrow> string \<times> Client" where
  "Key c = (key c, c)"

subsection \<open>The library calls of \<^verbatim>\<open>Pull\<close>\<close>

text \<open>
  \<^verbatim>\<open>fmt.Sprintf\<close>, for the fragment the package uses: the only verb is \<^verbatim>\<open>%v\<close> and
  every operand is a string, which \<^verbatim>\<open>%v\<close> prints as it is. Too few operands print
  \<^verbatim>\<open>%!v(MISSING)\<close>, operands left over print \<^verbatim>\<open>%!(EXTRA string=..., ...)\<close>, as the
  documentation of package fmt says. A format with any other use of \<^verbatim>\<open>%\<close> is outside
  this model.
\<close>

fun EXTRA :: "string list \<Rightarrow> string" where
  "EXTRA [] = []"
| "EXTRA [a] = ''string='' @ a"
| "EXTRA (a # b # as) = ''string='' @ a @ '', '' @ EXTRA (b # as)"

fun Sprintf :: "string \<Rightarrow> string list \<Rightarrow> string" where
  "Sprintf [] as = (if as = [] then [] else ''%!(EXTRA '' @ EXTRA as @ '')'')"
| "Sprintf [c] as = c # Sprintf [] as"
| "Sprintf (c # d # fmt) as =
     (if c = CHR ''%'' \<and> d = CHR ''v''
      then (case as of
              [] \<Rightarrow> ''%!v(MISSING)'' @ Sprintf fmt []
            | a # as' \<Rightarrow> a @ Sprintf fmt as')
      else c # Sprintf (d # fmt) as)"

text \<open>A \<^verbatim>\<open>bytes.Buffer\<close> is its contents; the zero value is empty.\<close>

type_synonym Buffer = string

definition WriteString :: "Buffer \<Rightarrow> string \<Rightarrow> Buffer" where
  "WriteString b s = b @ s"

definition Buffer_String :: "Buffer \<Rightarrow> string" where
  "Buffer_String b = b"

text \<open>
  A response body is a stream: the bytes it delivers and how it ends, at end of file
  (\<open>None\<close>) or with a read error. \<^verbatim>\<open>ioutil.ReadAll\<close> returns the bytes read and
  that error, nil at end of file.
\<close>

datatype ReadCloser = Reader "byte list" "error option"

record Response =
  StatusCode :: int
  Body :: ReadCloser

fun ReadAll :: "ReadCloser \<Rightarrow> byte list \<times> error option" where
  "ReadAll (Reader bs e) = (bs, e)"

text \<open>
  What a call does to the world outside the client: the requests it sends, and the reads
  and the closing of a response body, in order.
\<close>

datatype event = HttpGet string | BodyReadAll | BodyClose

fun gets :: "event list \<Rightarrow> string list" where
  "gets [] = []"
| "gets (HttpGet u # es) = u # gets es"
| "gets (e # es) = gets es"

subsection \<open>Ranging over the query map\<close>

text \<open>
  A \<^verbatim>\<open>map[string]string\<close> is a finite map; the nil map has no entry and ranges like
  the empty one. The order in which \<^verbatim>\<open>range\<close> visits the keys is chosen by the
  runtime at each loop: it is a parameter \<open>order\<close>, a list of the keys of the map, each
  once.
\<close>

definition range_order :: "(string \<rightharpoonup> string) \<Rightarrow> string list \<Rightarrow> bool" where
  "range_order query order \<longleftrightarrow> distinct order \<and> set order = dom query"

definition range_entries :: "(string \<rightharpoonup> string) \<Rightarrow> string list \<Rightarrow> (string \<times> string) list" where
  "range_entries query order = List.map_filter (\<lambda>k. map_option (Pair k) (query k)) order"

subsection \<open>Pull\<close>

text \<open>The loop of lines 67 to 69: one write to the buffer for each entry visited.\<close>

fun Pull_range :: "Buffer \<Rightarrow> (string \<times> string) list \<Rightarrow> Buffer" where
  "Pull_range params [] = params"
| "Pull_range params ((k, v) # kvs) =
     Pull_range (WriteString params (Sprintf ''&%v=%v'' [k, v])) kvs"

text \<open>Lines 63 to 69: the buffer \<^verbatim>\<open>params\<close> when the loop is over.\<close>

definition Pull_params :: "Client \<Rightarrow> string \<Rightarrow> (string \<rightharpoonup> string) \<Rightarrow> string list \<Rightarrow> Buffer" where
  "Pull_params c cmd query order =
     (let params = [];
          params = WriteString params (Sprintf ''%v?cmd=%v&key=%v'' [baseURL c, cmd, key c])
      in Pull_range params (range_entries query order))"

text \<open>
  What \<^verbatim>\<open>Pull\<close> returns (the pair of results), the client it leaves and the events it
  caused.
\<close>

record outcome =
  ret_body :: "byte list option"
  ret_err :: "error option"
  client :: Client
  events :: "event list"

text \<open>
  \<^verbatim>\<open>http.Get\<close> is the network: a parameter that answers a request string with an
  error or with a response. The deferred \<^verbatim>\<open>Close\<close> is registered after the first
  error check, so it runs on the two later returns only.
\<close>

definition Pull ::
  "(string \<Rightarrow> error + Response) \<Rightarrow> string list \<Rightarrow> Client \<Rightarrow> string \<Rightarrow> (string \<rightharpoonup> string) \<Rightarrow> outcome" where
  "Pull http_Get order c cmd query =
     (let params = Pull_params c cmd query order;
          target = Buffer_String params
      in case http_Get target of
           Inl err \<Rightarrow>
             \<lparr>ret_body = None, ret_err = Some err, client = c, events = [HttpGet target]\<rparr>
         | Inr resp \<Rightarrow>
             (case ReadAll (Body resp) of
                (body, Some err) \<Rightarrow>
                  \<lparr>ret_body = None, ret_err = Some err, client = c,
                   events = [HttpGet target, BodyReadAll, BodyClose]\<rparr>
              | (body, None) \<Rightarrow>
                  \<lparr>ret_body = Some body, ret_err = None, client = c,
                   events = [HttpGet target, BodyReadAll, BodyClose]\<rparr>))"

subsection \<open>Sequences of calls on one client\<close>

datatype call =
  Call_Key
| Call_BaseURL
| Call_SetBaseURL string
| Call_Pull "string \<Rightarrow> error + Response" "string list" string "string \<rightharpoonup> string"

fun exec :: "call \<Rightarrow> Client \<Rightarrow> Client" where
  "exec Call_Key c = snd (Key c)"
| "exec Call_BaseURL c = snd (BaseURL c)"
| "exec (Call_SetBaseURL u) c = SetBaseURL u c"
| "exec (Call_Pull http_Get order cmd query) c = client (Pull http_Get order c cmd query)"

fun run :: "call list \<Rightarrow> Client \<Rightarrow> Client" where
  "run [] c = c"
| "run (x # xs) c = run xs (exec x c)"

subsection \<open>Networks of the examples\<close>

text \<open>
  Three networks for one request string: a server that answers it with status 404 and the
  body \<^verbatim>\<open>no\<close>, a host that cannot be resolved, and a server whose body breaks off
  after one byte. Any other request string gets the opposite kind of answer.
\<close>

definition net_404 :: "string \<Rightarrow> error + Response" where
  "net_404 u =
     (if u = ''http://localhost/?cmd=test&key=testkey''
      then Inr \<lparr>StatusCode = 404, Body = Reader [0x6E, 0x6F] None\<rparr>
      else Inl (Error ''connection refused''))"

definition net_down :: "string \<Rightarrow> error + Response" where
  "net_down u =
     (if u = ''http://localhost/?cmd=test&key=testkey''
      then Inl (Error ''dial tcp: no such host'')
      else Inr \<lparr>StatusCode = 200, Body = Reader [] None\<rparr>)"

definition net_cut :: "string \<Rightarrow> error + Response" where
  "net_cut u =
     (if u = ''http://localhost/?cmd=test&key=testkey''
      then Inr \<lparr>StatusCode = 200, Body = Reader [0x7B] (Some (Error ''unexpected EOF''))\<rparr>
      else Inl (Error ''connection refused''))"

section \<open>Properties\<close>

subsection \<open>The request string\<close>

lemma Sprintf_cmd_key:
  "Sprintf ''%v?cmd=%v&key=%v'' [b, cmd, k] = b @ ''?cmd='' @ cmd @ ''&key='' @ k"
  by simp

lemma Pull_range_concat:
  "Pull_range params kvs = params @ concat (map (\<lambda>(k, v). ''&'' @ k @ ''='' @ v) kvs)"
proof (induction kvs arbitrary: params)
  case Nil
  show ?case by simp
next
  case (Cons kv kvs)
  obtain k v where kv: "kv = (k, v)" by (cases kv)
  show ?case
    unfolding kv by (simp add: Cons.IH WriteString_def)
qed

lemma Pull_params_eq:
  "Buffer_String (Pull_params c cmd query order) =
     baseURL c @ ''?cmd='' @ cmd @ ''&key='' @ key c @
     concat (map (\<lambda>(k, v). ''&'' @ k @ ''='' @ v) (range_entries query order))"
  by (simp add: Pull_params_def Buffer_String_def WriteString_def Pull_range_concat
      del: Sprintf.simps add: Sprintf_cmd_key)

lemma range_entries_eq:
  "set order \<subseteq> dom query \<Longrightarrow> range_entries query order = map (\<lambda>k. (k, the (query k))) order"
  by (induction order) (auto simp: range_entries_def List.map_filter_def)

lemma map_of_range_entries:
  assumes "range_order query order"
  shows "map_of (range_entries query order) = query"
proof
  fix k
  have sub: "set order \<subseteq> dom query" and dom: "dom query \<subseteq> set order"
    using assms by (auto simp: range_order_def)
  have eq: "range_entries query order = map (\<lambda>k. (k, the (query k))) order"
    by (rule range_entries_eq [OF sub])
  show "map_of (range_entries query order) k = query k"
  proof (cases "k \<in> set order")
    case True
    then have "map_of (map (\<lambda>k. (k, the (query k))) order) k = Some (the (query k))"
      by (simp add: map_of_map_restrict)
    moreover from True sub obtain v where "query k = Some v" by auto
    ultimately show ?thesis by (simp add: eq)
  next
    case False
    then have "query k = None" using dom by auto
    moreover have "map_of (map (\<lambda>k. (k, the (query k))) order) k = None"
      using False by (simp add: map_of_map_restrict)
    ultimately show ?thesis by (simp add: eq)
  qed
qed

lemma gets_Pull:
  "gets (events (Pull http_Get order c cmd query)) = [Buffer_String (Pull_params c cmd query order)]"
  by (simp add: Pull_def Let_def split: sum.split prod.split option.split)

text \<open>
  C1: whatever the client's base URL and key, the command and the query map, and in
  whatever order the map is ranged over, Pull sends one GET, to the base URL followed by
  \<^verbatim>\<open>?cmd=\<close>, the command, \<^verbatim>\<open>&key=\<close>, the key and then \<^verbatim>\<open>&k=v\<close> for each entry
  of the map in the order visited, each entry once. Every piece is copied as it is:
  nothing is percent-encoded.
\<close>

theorem Pull_request_target:
  assumes "range_order query order"
  shows "gets (events (Pull http_Get order c cmd query)) =
           [baseURL c @ ''?cmd='' @ cmd @ ''&key='' @ key c @
            concat (map (\<lambda>(ki, vi). ''&'' @ ki @ ''='' @ vi) (range_entries query order))]
         \<and> map fst (range_entries query order) = order
         \<and> map_of (range_entries query order) = query"
proof -
  have "set order \<subseteq> dom query"
    using assms by (simp add: range_order_def)
  then have "map fst (range_entries query order) = order"
    by (simp add: range_entries_eq comp_def)
  then show ?thesis
    by (simp only: gets_Pull Pull_params_eq map_of_range_entries [OF assms] simp_thms)
qed

theorem Pull_request_target_witness:
  "range_order [''bacon'' \<mapsto> ''good'', ''salad'' \<mapsto> ''a b&c''] [''salad'', ''bacon'']
   \<and> gets (events (Pull net_down [''salad'', ''bacon'']
        (New ''test key'') ''te?st'' [''bacon'' \<mapsto> ''good'', ''salad'' \<mapsto> ''a b&c''])) =
      [''http://api.bart.gov/api/bsa.aspx?cmd=te?st&key=test key&salad=a b&c&bacon=good'']"
proof -
  have h: "range_order [''bacon'' \<mapsto> ''good'', ''salad'' \<mapsto> ''a b&c''] [''salad'', ''bacon'']"
    by (auto simp: range_order_def)
  show ?thesis
    using h Pull_request_target [OF h, of net_down "New ''test key''" "''te?st''"]
    by (simp add: New_def URL_def range_entries_def List.map_filter_def)
qed

subsection \<open>What Pull returns\<close>

lemma Pull_Inl:
  "http_Get (Buffer_String (Pull_params c cmd query order)) = Inl e \<Longrightarrow>
   Pull http_Get order c cmd query =
     \<lparr>ret_body = None, ret_err = Some e, client = c,
      events = [HttpGet (Buffer_String (Pull_params c cmd query order))]\<rparr>"
  by (simp add: Pull_def Let_def)

lemma Pull_Inr:
  "http_Get (Buffer_String (Pull_params c cmd query order)) = Inr resp \<Longrightarrow>
   ReadAll (Body resp) = (bs, r) \<Longrightarrow>
   Pull http_Get order c cmd query =
     \<lparr>ret_body = (case r of None \<Rightarrow> Some bs | Some e \<Rightarrow> None), ret_err = r, client = c,
      events = [HttpGet (Buffer_String (Pull_params c cmd query order)), BodyReadAll, BodyClose]\<rparr>"
  by (simp add: Pull_def Let_def split: option.split)

lemma Pull_StatusCode:
  "Pull (\<lambda>u. case http_Get u of Inl e \<Rightarrow> Inl e | Inr r \<Rightarrow> Inr (r\<lparr>StatusCode := sc\<rparr>))
     order c cmd query = Pull http_Get order c cmd query"
  by (simp add: Pull_def Let_def split: sum.split)

lemma test_target:
  "Buffer_String (Pull_params (SetBaseURL ''http://localhost/'' (New ''testkey'')) ''test'' Map.empty [])
     = ''http://localhost/?cmd=test&key=testkey''"
  by (simp add: Pull_params_def Buffer_String_def WriteString_def New_def SetBaseURL_def
      range_entries_def List.map_filter_def)

text \<open>
  C2: when the GET is answered by a response, of any status code, whose body can be read
  to its end, Pull returns all the bytes of the body and a nil error. The status code is
  never looked at: replacing it in the answer of the network changes nothing of what Pull
  does.
\<close>

theorem Pull_any_status:
  assumes "http_Get (Buffer_String (Pull_params c cmd query order)) = Inr resp"
    and "ReadAll (Body resp) = (bs, None)"
  shows "ret_body (Pull http_Get order c cmd query) = Some bs
         \<and> ret_err (Pull http_Get order c cmd query) = None
         \<and> Pull (\<lambda>u. case http_Get u of Inl e \<Rightarrow> Inl e
                              | Inr r \<Rightarrow> Inr (r\<lparr>StatusCode := sc\<rparr>)) order c cmd query =
             Pull http_Get order c cmd query"
proof -
  have "Pull http_Get order c cmd query =
      \<lparr>ret_body = Some bs, ret_err = None, client = c,
       events = [HttpGet (Buffer_String (Pull_params c cmd query order)), BodyReadAll, BodyClose]\<rparr>"
    using Pull_Inr [of http_Get c cmd query order resp bs None] assms by simp
  then show ?thesis
    by (simp add: Pull_StatusCode)
qed

theorem Pull_any_status_witness:
  "net_404 (Buffer_String (Pull_params (SetBaseURL ''http://localhost/'' (New ''testkey''))
        ''test'' Map.empty [])) =
     Inr \<lparr>StatusCode = 404, Body = Reader [0x6E, 0x6F] None\<rparr>
   \<and> ReadAll (Body \<lparr>StatusCode = 404, Body = Reader [0x6E, 0x6F] None\<rparr>) = ([0x6E, 0x6F], None)
   \<and> ret_body (Pull net_404 [] (SetBaseURL ''http://localhost/'' (New ''testkey''))
         ''test'' Map.empty) = Some [0x6E, 0x6F]
   \<and> ret_err (Pull net_404 [] (SetBaseURL ''http://localhost/'' (New ''testkey''))
         ''test'' Map.empty) = None
   \<and> Pull (\<lambda>u. case net_404 u of Inl e \<Rightarrow> Inl e | Inr r \<Rightarrow> Inr (r\<lparr>StatusCode := 500\<rparr>)) []
         (SetBaseURL ''http://localhost/'' (New ''testkey'')) ''test'' Map.empty =
       Pull net_404 [] (SetBaseURL ''http://localhost/'' (New ''testkey'')) ''test'' Map.empty"
proof -
  let ?c = "SetBaseURL ''http://localhost/'' (New ''testkey'')"
  let ?resp = "\<lparr>StatusCode = 404, Body = Reader [0x6E, 0x6F :: byte] None\<rparr>"
  have h1: "net_404 (Buffer_String (Pull_params ?c ''test'' Map.empty [])) = Inr ?resp"
    by (simp add: test_target net_404_def)
  have h2: "ReadAll (Body ?resp) = ([0x6E, 0x6F], None)"
    by simp
  from h1 h2 Pull_any_status [of net_404 ?c "''test''" Map.empty "[]" ?resp "[0x6E, 0x6F]" 500]
  show ?thesis by simp
qed

text \<open>
  C3: when the GET fails, Pull returns the error of the GET, as it is, and nil bytes, and
  sends nothing more: the failed request is its only event. When the GET is answered but
  reading the body fails, Pull returns the read error and nil bytes, and again one request
  only was sent.
\<close>

theorem Pull_errors:
  "(http_Get (Buffer_String (Pull_params c cmd query order)) = Inl e \<longrightarrow>
      ret_body (Pull http_Get order c cmd query) = None
      \<and> ret_err (Pull http_Get order c cmd query) = Some e
      \<and> events (Pull http_Get order c cmd query) =
          [HttpGet (Buffer_String (Pull_params c cmd query order))])
   \<and> (http_Get (Buffer_String (Pull_params c cmd query order)) = Inr resp
        \<and> ReadAll (Body resp) = (bs, Some e) \<longrightarrow>
      ret_body (Pull http_Get order c cmd query) = None
      \<and> ret_err (Pull http_Get order c cmd query) = Some e
      \<and> gets (events (Pull http_Get order c cmd query)) =
          [Buffer_String (Pull_params c cmd query order)])"
proof (intro conjI impI)
  assume "http_Get (Buffer_String (Pull_params c cmd query order)) = Inl e"
  then have P: "Pull http_Get order c cmd query =
     \<lparr>ret_body = None, ret_err = Some e, client = c,
      events = [HttpGet (Buffer_String (Pull_params c cmd query order))]\<rparr>"
    by (rule Pull_Inl [of http_Get c cmd query order e])
  show "ret_body (Pull http_Get order c cmd query) = None"
    and "ret_err (Pull http_Get order c cmd query) = Some e"
    and "events (Pull http_Get order c cmd query) =
          [HttpGet (Buffer_String (Pull_params c cmd query order))]"
    by (simp_all add: P)
next
  assume "http_Get (Buffer_String (Pull_params c cmd query order)) = Inr resp
        \<and> ReadAll (Body resp) = (bs, Some e)"
  then have P: "Pull http_Get order c cmd query =
     \<lparr>ret_body = None, ret_err = Some e, client = c,
      events = [HttpGet (Buffer_String (Pull_params c cmd query order)), BodyReadAll, BodyClose]\<rparr>"
    using Pull_Inr [of http_Get c cmd query order resp bs "Some e"] by simp
  show "ret_body (Pull http_Get order c cmd query) = None"
    and "ret_err (Pull http_Get order c cmd query) = Some e"
    and "gets (events (Pull http_Get order c cmd query)) =
          [Buffer_String (Pull_params c cmd query order)]"
    by (simp_all add: P)
qed

theorem Pull_errors_witness:
  "net_down (Buffer_String (Pull_params (SetBaseURL ''http://localhost/'' (New ''testkey''))
        ''test'' Map.empty [])) = Inl (Error ''dial tcp: no such host'')
   \<and> ret_body (Pull net_down [] (SetBaseURL ''http://localhost/'' (New ''testkey''))
         ''test'' Map.empty) = None
   \<and> ret_err (Pull net_down [] (SetBaseURL ''http://localhost/'' (New ''testkey''))
         ''test'' Map.empty) = Some (Error ''dial tcp: no such host'')
   \<and> events (Pull net_down [] (SetBaseURL ''http://localhost/'' (New ''testkey''))
         ''test'' Map.empty) = [HttpGet ''http://localhost/?cmd=test&key=testkey'']
   \<and> net_cut (Buffer_String (Pull_params (SetBaseURL ''http://localhost/'' (New ''testkey''))
        ''test'' Map.empty [])) =
       Inr \<lparr>StatusCode = 200, Body = Reader [0x7B] (Some (Error ''unexpected EOF''))\<rparr>
   \<and> ReadAll (Body \<lparr>StatusCode = 200, Body = Reader [0x7B] (Some (Error ''unexpected EOF''))\<rparr>)
       = ([0x7B], Some (Error ''unexpected EOF''))
   \<and> ret_body (Pull net_cut [] (SetBaseURL ''http://localhost/'' (New ''testkey''))
         ''test'' Map.empty) = None
   \<and> ret_err (Pull net_cut [] (SetBaseURL ''http://localhost/'' (New ''testkey''))
         ''test'' Map.empty) = Some (Error ''unexpected EOF'')
   \<and> gets (events (Pull net_cut [] (SetBaseURL ''http://localhost/'' (New ''testkey''))
         ''test'' Map.empty)) = [''http://localhost/?cmd=test&key=testkey'']"
proof -
  let ?c = "SetBaseURL ''http://localhost/'' (New ''testkey'')"
  let ?e1 = "Error ''dial tcp: no such host''"
  let ?e2 = "Error ''unexpected EOF''"
  let ?resp = "\<lparr>StatusCode = 200, Body = Reader [0x7B :: byte] (Some ?e2)\<rparr>"
  have h1: "net_down (Buffer_String (Pull_params ?c ''test'' Map.empty [])) = Inl ?e1"
    by (simp add: test_target net_down_def)
  have h2: "net_cut (Buffer_String (Pull_params ?c ''test'' Map.empty [])) = Inr ?resp"
    by (simp add: test_target net_cut_def)
  have h3: "ReadAll (Body ?resp) = ([0x7B], Some ?e2)"
    by simp
  from h1 h2 h3
    Pull_errors [of net_down ?c "''test''" Map.empty "[]" ?e1]
    Pull_errors [of net_cut ?c "''test''" Map.empty "[]" ?e2 ?resp "[0x7B]"]
  show ?thesis by (simp add: test_target)
qed

subsection \<open>The state of the client\<close>

lemma client_Pull: "client (Pull http_Get order c cmd query) = c"
  by (simp add: Pull_def Let_def split: sum.split prod.split option.split)

lemma key_exec: "key (exec x c) = key c"
  by (cases x) (simp_all add: Key_def BaseURL_def SetBaseURL_def client_Pull)

lemma key_run: "key (run xs c) = key c"
  by (induction xs arbitrary: c) (simp_all add: key_exec)

text \<open>
  C6: for every string \<open>k\<close>, the empty one too, Key on the client made by New from \<open>k\<close>
  returns \<open>k\<close>, and it still returns \<open>k\<close> after any sequence of calls of SetBaseURL,
  BaseURL, Key and Pull on that client.
\<close>

theorem Key_returns_key:
  "fst (Key (New k)) = k \<and> fst (Key (run calls (New k))) = k"
  by (simp add: Key_def key_run) (simp add: New_def)

text \<open>
  C7: for every string \<open>u\<close>, whether empty, a URL or not, BaseURL right after
  SetBaseURL of \<open>u\<close> returns \<open>u\<close>. SetBaseURL has no error result and checks nothing.
\<close>

theorem SetBaseURL_BaseURL:
  "fst (BaseURL (SetBaseURL u c)) = u"
  by (simp add: BaseURL_def SetBaseURL_def)

text \<open>
  C8: a client made by \<^verbatim>\<open>New\<close> has the default endpoint
  \<^verbatim>\<open>http://api.bart.gov/api/bsa.aspx\<close> as its base URL, whatever the key.
\<close>

theorem New_BaseURL_default:
  "fst (BaseURL (New k)) = ''http://api.bart.gov/api/bsa.aspx''"
  by (simp add: BaseURL_def New_def URL_def)

text \<open>
  C9: no call of the interface changes the key: each of Key, BaseURL, SetBaseURL and Pull
  leaves it as it was, so after any sequence of calls it is the key given to New.
\<close>

theorem key_immutable:
  "key (exec x c) = key c \<and> key (run calls (New k)) = k"
  by (simp add: key_exec key_run) (simp add: New_def)

text \<open>
  C10: Pull leaves the client as it found it, key and base URL, whatever the command, the
  query map and the answer of the network; Key and BaseURL leave it unchanged too.
\<close>

theorem Pull_Key_BaseURL_frame:
  "client (Pull http_Get order c cmd query) = c \<and> snd (Key c) = c \<and> snd (BaseURL c) = c"
  by (simp add: client_Pull Key_def BaseURL_def)

end
